theory Spec2Isabelle
  imports Complex_Main "HOL-Library.Multiset"
begin

section \<open>Python values\<close>

text \<open>
  The script \<^verbatim>\<open>add_wikidata_qids.py\<close> handles three kinds of values: the cells of a CSV
  row (\<^verbatim>\<open>str\<close> or \<^verbatim>\<open>None\<close>), the JSON documents that \<^verbatim>\<open>safe_get\<close> returns (or \<^verbatim>\<open>None\<close>
  after the last failed attempt), and the values it stores in an output row. One datatype
  covers them. A JSON object is an association list read with \<open>map_of\<close>.

  A Python \<^verbatim>\<open>float\<close> is a binary64 number. A finite one is a rational, and the model
  holds it as that rational; a literal and the result of an addition are rounded to
  binary64 (see the section on binary64 arithmetic). A \<^verbatim>\<open>str\<close> is a list of 8-bit characters, read
  as the code points below 256.
\<close>

datatype pyval =
    PNone
  | PBool bool
  | PInt int
  | PFloat rat
  | PStr string
  | PList "pyval list"
  | PDict "(string \<times> pyval) list"

text \<open>The exceptions the modelled statements can raise.\<close>

datatype error = KeyError | AttributeError | TypeError | ValueError

definition bind_err :: "error + 'a \<Rightarrow> ('a \<Rightarrow> error + 'b) \<Rightarrow> error + 'b" where
  "bind_err m f = (case m of Inl e \<Rightarrow> Inl e | Inr x \<Rightarrow> f x)"

text \<open>Truth value testing (\<^verbatim>\<open>if x\<close>, \<^verbatim>\<open>not x\<close>, \<^verbatim>\<open>x or y\<close>).\<close>

fun truthy :: "pyval \<Rightarrow> bool" where
  "truthy PNone = False"
| "truthy (PBool b) = b"
| "truthy (PInt i) = (i \<noteq> 0)"
| "truthy (PFloat x) = (x \<noteq> 0)"
| "truthy (PStr s) = (s \<noteq> [])"
| "truthy (PList xs) = (xs \<noteq> [])"
| "truthy (PDict kvs) = (kvs \<noteq> [])"

definition py_or :: "pyval \<Rightarrow> pyval \<Rightarrow> pyval" where
  "py_or a b = (if truthy a then a else b)"

text \<open>\<^verbatim>\<open>d.get(k, default)\<close> on an arbitrary value: only a dict has the method.\<close>

definition py_get :: "pyval \<Rightarrow> string \<Rightarrow> pyval \<Rightarrow> error + pyval" where
  "py_get d k dflt =
     (case d of
        PDict kvs \<Rightarrow> Inr (case map_of kvs k of None \<Rightarrow> dflt | Some v \<Rightarrow> v)
      | _ \<Rightarrow> Inl AttributeError)"

text \<open>\<^verbatim>\<open>d[k]\<close> with a string key: a dict without the key raises KeyError, a list or a
  string refuses a string index, the other values are not subscriptable.\<close>

definition py_getitem :: "pyval \<Rightarrow> string \<Rightarrow> error + pyval" where
  "py_getitem d k =
     (case d of
        PDict kvs \<Rightarrow> (case map_of kvs k of None \<Rightarrow> Inl KeyError | Some v \<Rightarrow> Inr v)
      | _ \<Rightarrow> Inl TypeError)"

text \<open>\<^verbatim>\<open>d.get(key, default)\<close> where the key is itself a value (\<^verbatim>\<open>candidate['id']\<close>): a list
  or a dict is unhashable; a key that is not a string is never a key of a JSON object.\<close>

definition py_get_key :: "pyval \<Rightarrow> pyval \<Rightarrow> pyval \<Rightarrow> error + pyval" where
  "py_get_key d key dflt =
     (case d of
        PDict kvs \<Rightarrow>
          (case key of
             PList _ \<Rightarrow> Inl TypeError
           | PDict _ \<Rightarrow> Inl TypeError
           | PStr k \<Rightarrow> Inr (case map_of kvs k of None \<Rightarrow> dflt | Some v \<Rightarrow> v)
           | _ \<Rightarrow> Inr dflt)
      | _ \<Rightarrow> Inl AttributeError)"

text \<open>\<^verbatim>\<open>for c in v\<close>: the elements of a list, the characters of a string, the keys of a
  dict; the other values are not iterable.\<close>

definition py_iter :: "pyval \<Rightarrow> error + pyval list" where
  "py_iter v =
     (case v of
        PList xs \<Rightarrow> Inr xs
      | PStr s \<Rightarrow> Inr (map (\<lambda>c. PStr [c]) s)
      | PDict kvs \<Rightarrow> Inr (map PStr (remdups (map fst kvs)))
      | _ \<Rightarrow> Inl TypeError)"

subsection \<open>Strings\<close>

definition is_upper :: "char \<Rightarrow> bool" where
  "is_upper c =
     (let n = (of_char c :: nat)
      in (65 \<le> n \<and> n \<le> 90) \<or> (192 \<le> n \<and> n \<le> 222 \<and> n \<noteq> 215))"

definition lower_char :: "char \<Rightarrow> char" where
  "lower_char c = (if is_upper c then char_of (of_char c + (32::nat)) else c)"

text \<open>\<^verbatim>\<open>s.lower()\<close>.\<close>

definition py_lower :: "string \<Rightarrow> string" where
  "py_lower s = map lower_char s"

text \<open>\<^verbatim>\<open>v.lower()\<close> on an arbitrary value: only a string has the method.\<close>

definition lower_method :: "pyval \<Rightarrow> error + string" where
  "lower_method v = (case v of PStr s \<Rightarrow> Inr (py_lower s) | _ \<Rightarrow> Inl AttributeError)"

definition is_space :: "char \<Rightarrow> bool" where
  "is_space c =
     (let n = (of_char c :: nat)
      in (9 \<le> n \<and> n \<le> 13) \<or> (28 \<le> n \<and> n \<le> 32) \<or> n = 133 \<or> n = 160)"

text \<open>\<^verbatim>\<open>s.split()\<close>: the maximal runs of characters that are not whitespace. The first
  argument is the token read so far.\<close>

fun split_ws :: "string \<Rightarrow> string \<Rightarrow> string list" where
  "split_ws tok [] = (if tok = [] then [] else [tok])"
| "split_ws tok (c # cs) =
     (if is_space c then (if tok = [] then split_ws [] cs else tok # split_ws [] cs)
      else split_ws (tok @ [c]) cs)"

definition py_split :: "string \<Rightarrow> string list" where
  "py_split s = split_ws [] s"

fun starts_with :: "string \<Rightarrow> string \<Rightarrow> bool" where
  "starts_with s [] = True"
| "starts_with [] (p # ps) = False"
| "starts_with (c # cs) (p # ps) = (c = p \<and> starts_with cs ps)"

text \<open>\<^verbatim>\<open>sub in s\<close> on strings: \<open>sub\<close> occurs in \<open>s\<close> as a run of consecutive characters.\<close>

fun str_in :: "string \<Rightarrow> string \<Rightarrow> bool" where
  "str_in sub [] = (sub = [])"
| "str_in sub (c # cs) = (starts_with (c # cs) sub \<or> str_in sub cs)"

text \<open>\<^verbatim>\<open>a + b\<close> where \<open>b\<close> is a string: every other left operand raises TypeError.\<close>

definition str_add :: "pyval \<Rightarrow> pyval \<Rightarrow> error + pyval" where
  "str_add a b =
     (case (a, b) of
        (PStr x, PStr y) \<Rightarrow> Inr (PStr (x @ y))
      | _ \<Rightarrow> Inl TypeError)"

text \<open>\<^verbatim>\<open>'enwiki' in v\<close>: a key of a dict, an element of a list, a substring of a string;
  the other values are not containers.\<close>

definition py_contains :: "string \<Rightarrow> pyval \<Rightarrow> error + bool" where
  "py_contains k v =
     (case v of
        PDict kvs \<Rightarrow> Inr (map_of kvs k \<noteq> None)
      | PList xs \<Rightarrow> Inr (PStr k \<in> set xs)
      | PStr s \<Rightarrow> Inr (str_in k s)
      | _ \<Rightarrow> Inl TypeError)"

section \<open>Binary64 arithmetic\<close>

text \<open>
  The scorer adds the literals 0.45, 0.30, 0.15, 0.05 and 0.20 to a score that starts at
  0.0. Python rounds every literal and every sum to the nearest binary64 number, ties to
  the even significand. \<open>fl\<close> is that rounding on the rationals: the significand has 53
  bits, the exponent is not bounded. The sums of the scorer are 0 or at least 0.05, so no
  subnormal number occurs, and none overflows: adding 0.05 or 0.20 to a float of
  \<open>2\<^sup>5\<^sup>2\<close> or more returns that float.
\<close>

text \<open>The nearest integer, ties to the even one.\<close>

definition round_even :: "rat \<Rightarrow> int" where
  "round_even x =
     (let n = \<lfloor>x\<rfloor>; d = x - of_int n
      in if d < 1 / 2 then n else if 1 / 2 < d then n + 1 else if even n then n else n + 1)"

lemma ceiling_half_less:
  fixes y :: rat
  assumes "1 < y"
  shows "\<lceil>y / 2\<rceil> < \<lceil>y\<rceil>"
proof -
  have c: "2 \<le> \<lceil>y\<rceil>"
    using assms by (simp add: ceiling_le_iff [symmetric] less_ceiling_iff add1_zle_eq [symmetric])
  have "y \<le> of_int \<lceil>y\<rceil>"
    by (rule le_of_int_ceiling)
  then have "y / 2 \<le> of_int \<lceil>y\<rceil> / 2"
    by simp
  also have "\<dots> \<le> of_int (\<lceil>y\<rceil> - 1)"
    using c by simp
  finally have "\<lceil>y / 2\<rceil> \<le> \<lceil>y\<rceil> - 1"
    by (rule ceiling_le)
  then show ?thesis by simp
qed

text \<open>The exponent of a positive rational: \<open>2 powi ilog2 x \<le> x < 2 powi (ilog2 x + 1)\<close>.\<close>

function ilog2 :: "rat \<Rightarrow> int" where
  "ilog2 x =
     (if x \<le> 0 then 0
      else if x < 1 then ilog2 (2 * x) - 1
      else if 2 \<le> x then ilog2 (x / 2) + 1
      else 0)"
  by pat_completeness auto

termination
proof (relation "measure (\<lambda>x. nat \<lceil>x\<rceil> + 2 * nat \<lceil>1 / x\<rceil>)")
  show "wf (measure (\<lambda>x::rat. nat \<lceil>x\<rceil> + 2 * nat \<lceil>1 / x\<rceil>))"
    by simp
next
  fix x :: rat
  assume a: "\<not> x \<le> 0" "x < 1"
  have c1: "\<lceil>x\<rceil> = 1"
    using a by (simp add: ceiling_eq_iff)
  have c2: "\<lceil>2 * x\<rceil> \<le> 2"
    using a by (simp add: ceiling_le_iff)
  have y: "1 < 1 / x"
    using a by simp
  then have "\<lceil>1 / x / 2\<rceil> < \<lceil>1 / x\<rceil>"
    by (rule ceiling_half_less)
  moreover have "1 / (2 * x) = 1 / x / 2"
    by simp
  ultimately have c3: "\<lceil>1 / (2 * x)\<rceil> < \<lceil>1 / x\<rceil>"
    by (simp only:)
  have c4: "0 < \<lceil>1 / x\<rceil>"
    using a by (simp add: less_ceiling_iff)
  have "nat \<lceil>2 * x\<rceil> + 2 * nat \<lceil>1 / (2 * x)\<rceil> < nat \<lceil>x\<rceil> + 2 * nat \<lceil>1 / x\<rceil>"
    using c1 c2 c3 c4 by arith
  then show "(2 * x, x) \<in> measure (\<lambda>x. nat \<lceil>x\<rceil> + 2 * nat \<lceil>1 / x\<rceil>)"
    by (simp only: in_measure)
next
  fix x :: rat
  assume a: "\<not> x \<le> 0" "\<not> x < 1" "2 \<le> x"
  have "\<lceil>x / 2\<rceil> < \<lceil>x\<rceil>"
    using a by (intro ceiling_half_less) simp
  moreover have "0 < \<lceil>x / 2\<rceil>"
    using a by simp
  moreover have "\<lceil>1 / x\<rceil> = 1" "\<lceil>1 / (x / 2)\<rceil> = 1"
    using a by (simp_all add: ceiling_eq_iff)
  ultimately show "(x / 2, x) \<in> measure (\<lambda>x. nat \<lceil>x\<rceil> + 2 * nat \<lceil>1 / x\<rceil>)"
    by simp
qed

declare ilog2.simps [simp del]

text \<open>Rounding to 53 significant bits, and the addition of two floats.\<close>

definition fl :: "rat \<Rightarrow> rat" where
  "fl x =
     (if x = 0 then 0
      else (let e = ilog2 \<bar>x\<bar> - 52
            in sgn x * of_int (round_even (\<bar>x\<bar> / 2 powi e)) * 2 powi e))"

definition fadd :: "rat \<Rightarrow> rat \<Rightarrow> rat" where
  "fadd a b = fl (a + b)"

section \<open>Rows and the collaborators\<close>

text \<open>A CSV row (\<^verbatim>\<open>csv.DictReader\<close>) and an output row: a dict with string keys.
  \<^verbatim>\<open>row.get(k)\<close> is \<^verbatim>\<open>None\<close> for a missing key, \<^verbatim>\<open>row.get(k, '')\<close> the empty string.\<close>

type_synonym row = "string \<rightharpoonup> pyval"

definition row_get :: "row \<Rightarrow> string \<Rightarrow> pyval" where
  "row_get r k = (case r k of None \<Rightarrow> PNone | Some v \<Rightarrow> v)"

definition row_get_default :: "row \<Rightarrow> string \<Rightarrow> pyval \<Rightarrow> pyval" where
  "row_get_default r k dflt = (case r k of None \<Rightarrow> dflt | Some v \<Rightarrow> v)"

text \<open>
  \<^verbatim>\<open>search_wikidata\<close> and \<^verbatim>\<open>get_entity_data\<close> ask the network through \<^verbatim>\<open>safe_get\<close>, which
  returns the parsed JSON document, or \<^verbatim>\<open>None\<close> when every attempt failed. The network
  is a parameter: the reply to a request, given the requests made before it. The list
  of requests made so far is threaded through every function that can make one.
\<close>

datatype call = Search string | Entity pyval

type_synonym net = "call list \<Rightarrow> call \<Rightarrow> pyval"

definition request :: "net \<Rightarrow> call \<Rightarrow> call list \<Rightarrow> pyval \<times> call list" where
  "request nw c lg = (nw lg c, lg @ [c])"

text \<open>\<^verbatim>\<open>search_wikidata(label)\<close>: \<^verbatim>\<open>urllib.parse.quote\<close> takes a string (TypeError
  otherwise), then one request.\<close>

definition search_wikidata :: "net \<Rightarrow> pyval \<Rightarrow> call list \<Rightarrow> (error + pyval) \<times> call list" where
  "search_wikidata nw label lg =
     (case label of
        PStr s \<Rightarrow> (let (res, lg') = request nw (Search s) lg in (Inr res, lg'))
      | _ \<Rightarrow> (Inl TypeError, lg))"

text \<open>\<^verbatim>\<open>get_entity_data(qid)\<close>: \<^verbatim>\<open>str.format\<close> takes any value, then one request.\<close>

definition get_entity_data :: "net \<Rightarrow> pyval \<Rightarrow> call list \<Rightarrow> pyval \<times> call list" where
  "get_entity_data nw qid lg = request nw (Entity qid) lg"

section \<open>The scorer\<close>

text \<open>Lines 57 to 66 of \<^verbatim>\<open>score_candidate\<close>: the label tier. \<^verbatim>\<open>score += 0.45\<close> adds the
  float of the literal to the float \<^verbatim>\<open>score\<close> and rounds.\<close>

definition label_match :: "string \<Rightarrow> string \<Rightarrow> rat \<Rightarrow> rat" where
  "label_match label term score =
     (if label = term then fadd score (fl (45 / 100))
      else if str_in term label \<or> str_in label term then fadd score (fl (30 / 100))
      else if set (py_split term) \<inter> set (py_split label) \<noteq> {}
        then fadd score (fl (15 / 100))
      else score)"

text \<open>Line 71: the tokens of \<^verbatim>\<open>geo_path\<close>, \<^verbatim>\<open>time_path\<close> and \<^verbatim>\<open>category\<close>, joined by spaces,
  lower-cased and split.\<close>

definition context_tokens :: "row \<Rightarrow> error + string list" where
  "context_tokens row =
     bind_err (str_add (row_get_default row ''geo_path'' (PStr '''')) (PStr '' '')) (\<lambda>a.
     bind_err (str_add a (row_get_default row ''time_path'' (PStr ''''))) (\<lambda>b.
     bind_err (str_add b (PStr '' '')) (\<lambda>c.
     bind_err (str_add c (row_get_default row ''category'' (PStr ''''))) (\<lambda>d.
     bind_err (lower_method d) (\<lambda>s. Inr (py_split s))))))"

text \<open>Lines 71 to 73: the loop over the tokens.\<close>

fun desc_loop :: "string \<Rightarrow> string list \<Rightarrow> rat \<Rightarrow> rat" where
  "desc_loop desc [] score = score"
| "desc_loop desc (token # tokens) score =
     desc_loop desc tokens
       (if token \<noteq> [] \<and> str_in token desc then fadd score (fl (5 / 100)) else score)"

text \<open>Lines 69 to 73.\<close>

definition desc_match :: "pyval \<Rightarrow> row \<Rightarrow> rat \<Rightarrow> error + rat" where
  "desc_match candidate row score =
     bind_err (py_get candidate ''description'' PNone) (\<lambda>d.
     bind_err (lower_method (py_or d (PStr ''''))) (\<lambda>desc.
       if desc \<noteq> [] then
         bind_err (context_tokens row) (\<lambda>tokens. Inr (desc_loop desc tokens score))
       else Inr score))"

text \<open>Lines 78 to 83: the bonus for an English Wikipedia sitelink.\<close>

definition sitelink_bonus :: "pyval \<Rightarrow> pyval \<Rightarrow> rat \<Rightarrow> error + rat" where
  "sitelink_bonus ent qid score =
     (if truthy ent then
        bind_err (py_get ent ''entities'' (PDict [])) (\<lambda>entities.
        bind_err (py_get_key entities qid (PDict [])) (\<lambda>e.
        bind_err (py_get e ''sitelinks'' (PDict [])) (\<lambda>sitelinks.
        bind_err (py_contains ''enwiki'' sitelinks) (\<lambda>found.
          Inr (if found then fadd score (fl (20 / 100)) else score)))))
      else Inr score)"

text \<open>Lines 86 to 88.\<close>

definition normalize_score :: "rat \<Rightarrow> rat" where
  "normalize_score score = (if score > 1 then 1 else score)"

text \<open>Line 55: \<^verbatim>\<open>(candidate.get('label') or "").lower()\<close>.\<close>

definition candidate_label :: "pyval \<Rightarrow> error + string" where
  "candidate_label candidate =
     bind_err (py_get candidate ''label'' PNone) (\<lambda>l. lower_method (py_or l (PStr '''')))"

text \<open>Line 56: \<^verbatim>\<open>(row.get('wiki_label') or row.get('word') or "").lower()\<close>.\<close>

definition row_term :: "row \<Rightarrow> error + string" where
  "row_term row =
     lower_method (py_or (py_or (row_get row ''wiki_label'') (row_get row ''word'')) (PStr ''''))"

text \<open>Lines 53 to 73: everything before the entity lookup.\<close>

definition score_text :: "pyval \<Rightarrow> row \<Rightarrow> error + rat" where
  "score_text candidate row =
     bind_err (candidate_label candidate) (\<lambda>label.
     bind_err (row_term row) (\<lambda>term.
       desc_match candidate row (label_match label term 0)))"

definition score_candidate ::
    "net \<Rightarrow> pyval \<Rightarrow> row \<Rightarrow> call list \<Rightarrow> (error + rat) \<times> call list" where
  "score_candidate nw candidate row lg =
     (case score_text candidate row of
        Inl e \<Rightarrow> (Inl e, lg)
      | Inr score \<Rightarrow>
          (case py_getitem candidate ''id'' of
             Inl e \<Rightarrow> (Inl e, lg)
           | Inr qid \<Rightarrow>
               (let (ent, lg') = get_entity_data nw qid lg
                in (case sitelink_bonus ent qid score of
                      Inl e \<Rightarrow> (Inl e, lg')
                    | Inr score' \<Rightarrow> (Inr (normalize_score score'), lg')))))"

section \<open>Ranking and the resolution of one row\<close>

text \<open>An element of the list \<^verbatim>\<open>scored\<close>: the tuple \<^verbatim>\<open>(id, label, description, conf)\<close>.\<close>

type_synonym scored = "pyval \<times> pyval \<times> pyval \<times> rat"

text \<open>\<^verbatim>\<open>lambda x: x[3]\<close>.\<close>

definition conf_of :: "scored \<Rightarrow> rat" where
  "conf_of x = snd (snd (snd x))"

text \<open>Line 102: \<^verbatim>\<open>c['id'], c.get('label'), c.get('description')\<close>.\<close>

definition hit_fields :: "pyval \<Rightarrow> error + pyval \<times> pyval \<times> pyval" where
  "hit_fields c =
     bind_err (py_getitem c ''id'') (\<lambda>qid.
     bind_err (py_get c ''label'' PNone) (\<lambda>lbl.
     bind_err (py_get c ''description'' PNone) (\<lambda>desc.
       Inr (qid, lbl, desc))))"

text \<open>Lines 100 to 102: the loop over the search hits. The fourth argument is the list
  \<^verbatim>\<open>scored\<close> built so far. An exception leaves the loop.\<close>

fun score_hits ::
    "net \<Rightarrow> row \<Rightarrow> pyval list \<Rightarrow> scored list \<Rightarrow> call list \<Rightarrow> (error + scored list) \<times> call list" where
  "score_hits nw row [] scored lg = (Inr scored, lg)"
| "score_hits nw row (c # cs) scored lg =
     (case score_candidate nw c row lg of
        (Inl e, lg') \<Rightarrow> (Inl e, lg')
      | (Inr conf, lg') \<Rightarrow>
          (case hit_fields c of
             Inl e \<Rightarrow> (Inl e, lg')
           | Inr (qid, lbl, desc) \<Rightarrow>
               score_hits nw row cs (scored @ [(qid, lbl, desc, conf)]) lg'))"

text \<open>\<^verbatim>\<open>xs.sort(key=f, reverse=True)\<close>: CPython reverses the list, sorts it with its stable
  sort, and reverses the result. \<open>sort_key\<close> is the stable insertion sort of the library.\<close>

definition py_sort_reverse :: "('a \<Rightarrow> rat) \<Rightarrow> 'a list \<Rightarrow> 'a list" where
  "py_sort_reverse f xs = rev (sort_key f (rev xs))"

text \<open>The dict of an accepted candidate (line 105) and of a fallback candidate (line 132).\<close>

definition candidate_dict :: "scored \<Rightarrow> pyval" where
  "candidate_dict x =
     (case x of (qid, lbl, desc, conf) \<Rightarrow>
        PDict [(''qid'', qid), (''label'', lbl), (''description'', desc),
               (''confidence'', PFloat conf)])"

definition fallback_dict :: "scored \<Rightarrow> pyval" where
  "fallback_dict x =
     (case x of (qid, lbl, desc, conf) \<Rightarrow>
        PDict [(''qid'', qid), (''label'', lbl), (''desc'', desc), (''raw_conf'', PFloat conf)])"

text \<open>Lines 104 to 106: sort by confidence, descending; keep the candidates at or above
  the threshold; return both lists. The threshold is whatever number the caller passes
  (Python compares a float with an \<^verbatim>\<open>int\<close> or a \<^verbatim>\<open>Fraction\<close> exactly); the default 0.8 is
  \<open>fl (8 / 10)\<close>.\<close>

definition rank :: "rat \<Rightarrow> scored list \<Rightarrow> pyval list \<times> scored list" where
  "rank threshold scored =
     (let sorted_scored = py_sort_reverse conf_of scored
      in (map candidate_dict (filter (\<lambda>x. conf_of x \<ge> threshold) sorted_scored),
          sorted_scored))"


text \<open>Lines 98 and 100: \<^verbatim>\<open>res.get('search', [])\<close>, and what the loop iterates over.\<close>

definition search_hits_of :: "pyval \<Rightarrow> error + pyval list" where
  "search_hits_of res = bind_err (py_get res ''search'' (PList [])) py_iter"

text \<open>What \<^verbatim>\<open>find_candidates_for_row\<close> returns: the bare empty list of lines 94 and 97,
  or the pair of line 106.\<close>

datatype ret = Ret_empty_list | Ret_pair "pyval list" "scored list"

definition find_candidates_for_row ::
    "net \<Rightarrow> row \<Rightarrow> rat \<Rightarrow> call list \<Rightarrow> (error + ret) \<times> call list" where
  "find_candidates_for_row nw row threshold lg =
     (let label = py_or (row_get row ''wiki_label'') (row_get row ''word'')
      in if \<not> truthy label then (Inr Ret_empty_list, lg)
         else
           (case search_wikidata nw label lg of
              (Inl e, lg') \<Rightarrow> (Inl e, lg')
            | (Inr res, lg') \<Rightarrow>
                if \<not> truthy res then (Inr Ret_empty_list, lg')
                else
                  (case search_hits_of res of
                     Inl e \<Rightarrow> (Inl e, lg')
                   | Inr search_hits \<Rightarrow>
                       (case score_hits nw row search_hits [] lg' of
                          (Inl e, lg'') \<Rightarrow> (Inl e, lg'')
                        | (Inr scored, lg'') \<Rightarrow>
                            (case rank threshold scored of
                               (candidates, sorted_scored) \<Rightarrow>
                                 (Inr (Ret_pair candidates sorted_scored), lg''))))))"

section \<open>The loop of the main function\<close>

text \<open>
  The rows are dict objects: \<^verbatim>\<open>results.append(r)\<close> stores a reference to the input row,
  \<^verbatim>\<open>dict(r)\<close> makes a new object, and the three assignments write into that object. The
  state holds the objects by address, the next free address, the list \<^verbatim>\<open>results\<close> (of
  addresses) and the requests made so far. \<^verbatim>\<open>print\<close> and \<^verbatim>\<open>time.sleep\<close> are left out.
\<close>

record state =
  heap :: "nat \<Rightarrow> row"
  free_addr :: nat
  results :: "nat list"
  calls :: "call list"

text \<open>Line 117: the condition under which a row is appended as it is.\<close>

definition skip_guard :: "row \<Rightarrow> bool" where
  "skip_guard r =
     ((truthy (row_get r ''wiki_qid'') \<and> row_get r ''wiki_qid'' \<noteq> PStr ''TBD'')
      \<or> (row_get r ''wiki_label'' = PNone \<and> row_get r ''word'' = PStr []))"

text \<open>\<^verbatim>\<open>candidates, scored = ...\<close>: unpacking the empty list raises ValueError.\<close>

definition unpack2 :: "ret \<Rightarrow> error + pyval list \<times> scored list" where
  "unpack2 v = (case v of Ret_empty_list \<Rightarrow> Inl ValueError | Ret_pair c s \<Rightarrow> Inr (c, s))"

text \<open>\<^verbatim>\<open>dict(r)\<close>: a new object with the items of the object at \<open>a\<close>.\<close>

definition dict_copy :: "nat \<Rightarrow> state \<Rightarrow> nat \<times> state" where
  "dict_copy a st =
     (free_addr st,
      st\<lparr>heap := (heap st)(free_addr st := heap st a), free_addr := Suc (free_addr st)\<rparr>)"

text \<open>\<^verbatim>\<open>d[k] = v\<close> on the object at \<open>a\<close>.\<close>

definition setitem :: "nat \<Rightarrow> string \<Rightarrow> pyval \<Rightarrow> state \<Rightarrow> state" where
  "setitem a k v st = st\<lparr>heap := (heap st)(a := (heap st a)(k \<mapsto> v))\<rparr>"

text \<open>\<^verbatim>\<open>results.append(r)\<close>.\<close>

definition append_result :: "nat \<Rightarrow> state \<Rightarrow> state" where
  "append_result a st = st\<lparr>results := results st @ [a]\<rparr>"

text \<open>Lines 124 to 134: the three assignments to \<^verbatim>\<open>r_out\<close>. \<^verbatim>\<open>json.dumps\<close> is a parameter.\<close>

definition attach ::
    "(pyval \<Rightarrow> string) \<Rightarrow> pyval list \<Rightarrow> scored list \<Rightarrow> nat \<Rightarrow> state \<Rightarrow> error + state" where
  "attach dumps candidates scored r_out st =
     (case candidates of
        c0 # _ \<Rightarrow>
          (let st1 = setitem r_out ''wiki_qid_candidates'' (PStr (dumps (PList candidates))) st
           in bind_err (py_getitem c0 ''qid'') (\<lambda>qid.
              let st2 = setitem r_out ''wiki_qid'' qid st1
              in bind_err (py_getitem c0 ''confidence'') (\<lambda>cf.
                 Inr (setitem r_out ''wiki_qid_confidence'' cf st2))))
      | [] \<Rightarrow>
          (let top = take 3 scored;
               st1 = setitem r_out ''wiki_qid_candidates''
                       (PStr (dumps (PList (map fallback_dict top)))) st;
               st2 = setitem r_out ''wiki_qid'' (PStr []) st1
           in Inr (setitem r_out ''wiki_qid_confidence'' (PStr []) st2)))"

text \<open>Lines 116 to 136: the body of the loop, for the row at address \<open>a\<close>. An exception
  ends the run: the loop has no handler.\<close>

definition main_body ::
    "net \<Rightarrow> (pyval \<Rightarrow> string) \<Rightarrow> rat \<Rightarrow> nat \<Rightarrow> state \<Rightarrow> error + state" where
  "main_body nw dumps threshold a st =
     (let r = heap st a
      in if skip_guard r then Inr (append_result a st)
         else
           (case find_candidates_for_row nw r threshold (calls st) of
              (Inl e, lg) \<Rightarrow> Inl e
            | (Inr v, lg) \<Rightarrow>
                bind_err (unpack2 v) (\<lambda>(candidates, scored).
                  let (r_out, st1) = dict_copy a (st\<lparr>calls := lg\<rparr>)
                  in bind_err (attach dumps candidates scored r_out st1) (\<lambda>st2.
                       Inr (append_result r_out st2)))))"

text \<open>Lines 115 to 136: the loop over the rows.\<close>

fun main_loop ::
    "net \<Rightarrow> (pyval \<Rightarrow> string) \<Rightarrow> rat \<Rightarrow> nat list \<Rightarrow> state \<Rightarrow> error + state" where
  "main_loop nw dumps threshold [] st = Inr st"
| "main_loop nw dumps threshold (a # as) st =
     (case main_body nw dumps threshold a st of
        Inl e \<Rightarrow> Inl e
      | Inr st' \<Rightarrow> main_loop nw dumps threshold as st')"

text \<open>Lines 109 to 114: the rows read from the CSV file are the first objects.\<close>

definition initial_state :: "row list \<Rightarrow> state" where
  "initial_state rows =
     \<lparr>heap = (\<lambda>i. if i < length rows then rows ! i else Map.empty),
      free_addr = length rows, results = [], calls = []\<rparr>"

definition main_rows :: "net \<Rightarrow> (pyval \<Rightarrow> string) \<Rightarrow> rat \<Rightarrow> row list \<Rightarrow> error + state" where
  "main_rows nw dumps threshold rows =
     main_loop nw dumps threshold [0..<length rows] (initial_state rows)"

section \<open>Two runs of the scorer that differ in the label tier\<close>


section \<open>Example inputs\<close>

text \<open>A row for the label Berlin that still needs an identifier, a search hit whose
  description holds two of the row's context tokens, and an entity document with an
  English Wikipedia sitelink.\<close>

definition row_berlin :: row where
  "row_berlin =
     [''word'' \<mapsto> PStr ''Berlin'', ''wiki_qid'' \<mapsto> PStr ''TBD'',
      ''geo_path'' \<mapsto> PStr ''Germany Europe'', ''time_path'' \<mapsto> PStr [],
      ''category'' \<mapsto> PStr ''city'']"

definition cand_berlin :: pyval where
  "cand_berlin =
     PDict [(''id'', PStr ''Q64''), (''label'', PStr ''Berlin''),
            (''description'', PStr ''capital of Germany, in Europe'')]"

definition entity_berlin :: pyval where
  "entity_berlin =
     PDict [(''entities'',
       PDict [(''Q64'', PDict [(''sitelinks'', PDict [(''enwiki'', PDict [])])])])]"

text \<open>A network that answers every search with the one hit and every entity lookup with
  the document, and a network on which every request fails.\<close>

fun net_berlin :: net where
  "net_berlin lg (Search s) = PDict [(''search'', PList [cand_berlin])]"
| "net_berlin lg (Entity q) = entity_berlin"

definition net_down :: net where
  "net_down lg c = PNone"

text \<open>A row for the label Paris and a search reply with three hits, two of which end with
  the same confidence; every entity lookup fails.\<close>

definition row_paris :: row where
  "row_paris =
     [''word'' \<mapsto> PStr ''Paris'', ''wiki_qid'' \<mapsto> PStr [],
      ''geo_path'' \<mapsto> PStr ''France'', ''time_path'' \<mapsto> PStr [], ''category'' \<mapsto> PStr []]"

definition hits_paris :: "pyval list" where
  "hits_paris =
     [PDict [(''id'', PStr ''Q1''), (''label'', PStr ''Paris Hilton''),
             (''description'', PStr ''American media personality'')],
      PDict [(''id'', PStr ''Q2''), (''label'', PStr ''Paris''),
             (''description'', PStr ''capital of France'')],
      PDict [(''id'', PStr ''Q3''), (''label'', PStr ''Paris, Texas'')]]"

fun net_paris :: net where
  "net_paris lg (Search s) = PDict [(''search'', PList hits_paris)]"
| "net_paris lg (Entity q) = PNone"


text \<open>A row that already holds an identifier, and a row whose label columns are present
  but empty.\<close>

definition row_q42 :: row where
  "row_q42 = [''word'' \<mapsto> PStr ''Douglas Adams'', ''wiki_qid'' \<mapsto> PStr ''Q42'']"

definition row_blank :: row where
  "row_blank =
     [''word'' \<mapsto> PStr [], ''wiki_label'' \<mapsto> PStr [], ''wiki_qid'' \<mapsto> PStr ''TBD'']"




definition cand_berlin_wall :: pyval where
  "cand_berlin_wall =
     PDict [(''id'', PStr ''Q64''), (''label'', PStr ''Berlin Wall''),
            (''description'', PStr ''capital of Germany, in Europe'')]"

text \<open>A network that answers every search with that second hit and on which every entity
  lookup fails.\<close>

fun net_wall :: net where
  "net_wall lg (Search s) = PDict [(''search'', PList [cand_berlin_wall])]"
| "net_wall lg (Entity q) = PNone"

section \<open>Shapes the scorer accepts\<close>

text \<open>
  The shapes of the values for which the scorer is shown to return: a search hit is an
  object with a string \<^verbatim>\<open>id\<close> whose \<^verbatim>\<open>label\<close> and \<^verbatim>\<open>description\<close> are each missing, falsy or a
  string; the label columns of a row are missing, falsy or a string and its context
  columns are missing or a string; the reply to an entity lookup is falsy (the lookup
  failed) or an object in which \<^verbatim>\<open>entities\<close>, the entry of the identifier and \<^verbatim>\<open>sitelinks\<close>
  are objects where present; the reply to a search is falsy or an object whose \<^verbatim>\<open>search\<close>
  member, where present, is a list of such hits.
\<close>

definition str_or_falsy :: "pyval \<Rightarrow> bool" where
  "str_or_falsy v = (case v of PStr s \<Rightarrow> True | _ \<Rightarrow> \<not> truthy v)"

definition is_str :: "pyval \<Rightarrow> bool" where
  "is_str v = (case v of PStr s \<Rightarrow> True | _ \<Rightarrow> False)"

definition is_dict :: "pyval \<Rightarrow> bool" where
  "is_dict v = (case v of PDict kvs \<Rightarrow> True | _ \<Rightarrow> False)"

definition member_or :: "(string \<times> pyval) list \<Rightarrow> string \<Rightarrow> pyval \<Rightarrow> pyval" where
  "member_or kvs k dflt = (case map_of kvs k of None \<Rightarrow> dflt | Some v \<Rightarrow> v)"

definition wf_candidate :: "pyval \<Rightarrow> bool" where
  "wf_candidate c =
     (case c of
        PDict kvs \<Rightarrow>
          is_str (member_or kvs ''id'' PNone)
          \<and> str_or_falsy (member_or kvs ''label'' PNone)
          \<and> str_or_falsy (member_or kvs ''description'' PNone)
      | _ \<Rightarrow> False)"

definition wf_row :: "row \<Rightarrow> bool" where
  "wf_row row =
     (str_or_falsy (row_get row ''wiki_label'')
      \<and> str_or_falsy (row_get row ''word'')
      \<and> is_str (row_get_default row ''geo_path'' (PStr []))
      \<and> is_str (row_get_default row ''time_path'' (PStr []))
      \<and> is_str (row_get_default row ''category'' (PStr [])))"

definition wf_entity :: "pyval \<Rightarrow> string \<Rightarrow> bool" where
  "wf_entity ent q =
     (case ent of
        PDict kvs \<Rightarrow>
          (case member_or kvs ''entities'' (PDict []) of
             PDict es \<Rightarrow>
               (case member_or es q (PDict []) of
                  PDict e \<Rightarrow> is_dict (member_or e ''sitelinks'' (PDict []))
                | _ \<Rightarrow> False)
           | _ \<Rightarrow> False)
      | _ \<Rightarrow> \<not> truthy ent)"

definition wf_search :: "pyval \<Rightarrow> bool" where
  "wf_search res =
     (case res of
        PDict kvs \<Rightarrow>
          (case member_or kvs ''search'' (PList []) of
             PList hits \<Rightarrow> list_all wf_candidate hits
           | _ \<Rightarrow> False)
      | _ \<Rightarrow> \<not> truthy res)"

text \<open>A hit without an identifier, and a network whose replies are JSON lists.\<close>

definition cand_no_id :: pyval where
  "cand_no_id = PDict [(''label'', PStr ''Berlin''), (''description'', PStr ''capital of Germany'')]"

definition net_garbled :: net where
  "net_garbled lg c = PList [PStr ''error'']"

section \<open>Properties of the rounding\<close>

lemma floor_rat_numeral:
  "\<lfloor>numeral a / numeral b :: rat\<rfloor> = numeral a div numeral b"
  using floor_divide_of_int_eq [of "numeral a" "numeral b", where ?'a = rat] by simp

lemmas fl_simps = fl_def fadd_def round_even_def ilog2.simps Let_def floor_rat_numeral


lemma round_even_ge: "of_int k \<le> x \<Longrightarrow> k \<le> round_even x"
proof -
  assume "of_int k \<le> x"
  then have "k \<le> \<lfloor>x\<rfloor>"
    by (simp add: le_floor_iff)
  moreover have "\<lfloor>x\<rfloor> \<le> round_even x"
    by (simp add: round_even_def Let_def)
  ultimately show ?thesis by simp
qed




lemma fl_pos_eq:
  "0 < x \<Longrightarrow> fl x = of_int (round_even (x / 2 powi (ilog2 x - 52))) * 2 powi (ilog2 x - 52)"
  by (simp add: fl_def Let_def)

text \<open>A rounded non-negative number is non-negative.\<close>

lemma fl_nonneg: "0 \<le> x \<Longrightarrow> 0 \<le> fl x"
proof (cases "x = 0")
  case True
  then show ?thesis by (simp add: fl_def)
next
  case False
  assume "0 \<le> x"
  with False have x: "0 < x" by simp
  have "(0::int) \<le> round_even (x / 2 powi (ilog2 x - 52))"
    using x by (intro round_even_ge) simp
  then show ?thesis
    using x by (simp add: fl_pos_eq)
qed



text \<open>The floats of the five literals.\<close>

lemma fl_literals:
  "fl (45 / 100) = 8106479329266893 / 18014398509481984"
  "fl (30 / 100) = 5404319552844595 / 18014398509481984"
  "fl (15 / 100) = 5404319552844595 / 36028797018963968"
  "fl (5 / 100) = 3602879701896397 / 72057594037927936"
  "fl (20 / 100) = 3602879701896397 / 18014398509481984"
  by (simp_all add: fl_simps)

section \<open>Evaluation\<close>

lemmas str_simps =
  py_lower_def lower_char_def is_upper_def char_of_eq_iff py_split_def is_space_def

lemmas val_simps =
  py_get_def py_getitem_def py_get_key_def py_iter_def lower_method_def str_add_def
  py_contains_def py_or_def bind_err_def row_get_def row_get_default_def request_def
  search_wikidata_def get_entity_data_def

lemmas score_simps =
  label_match_def context_tokens_def desc_match_def sitelink_bonus_def normalize_score_def
  candidate_label_def row_term_def score_text_def score_candidate_def

lemmas resolve_simps =
  hit_fields_def search_hits_of_def conf_of_def py_sort_reverse_def candidate_dict_def
  fallback_dict_def rank_def find_candidates_for_row_def skip_guard_def unpack2_def
  dict_copy_def setitem_def append_result_def attach_def main_body_def

lemmas berlin_simps = row_berlin_def cand_berlin_def entity_berlin_def


lemma score_berlin:
  "score_candidate net_berlin cand_berlin row_berlin lg = (Inr (3 / 4), lg @ [Entity (PStr ''Q64'')])"
  by (simp add: berlin_simps str_simps val_simps score_simps fl_simps)

section \<open>Properties of the scorer\<close>

lemma bind_err_Inr_iff: "bind_err m f = Inr y \<longleftrightarrow> (\<exists>x. m = Inr x \<and> f x = Inr y)"
  by (cases m) (simp_all add: bind_err_def)

lemma fadd_nonneg: "0 \<le> a \<Longrightarrow> 0 \<le> b \<Longrightarrow> 0 \<le> fadd a b"
  by (simp add: fadd_def fl_nonneg)

lemma label_match_nonneg: "0 \<le> score \<Longrightarrow> 0 \<le> label_match label term score"
  by (simp add: label_match_def fadd_nonneg fl_nonneg)

lemma desc_loop_nonneg: "0 \<le> score \<Longrightarrow> 0 \<le> desc_loop desc tokens score"
  by (induction tokens arbitrary: score) (simp_all add: fadd_nonneg fl_nonneg)

text \<open>The description loop of a run that returns, as a function of the score it starts
  from.\<close>

lemma desc_match_Inr:
  assumes "desc_match c row s = Inr s'"
  shows "\<exists>desc tokens. \<forall>s2. desc_match c row s2 = Inr (desc_loop desc tokens s2)"
proof -
  from assms obtain d where d: "py_get c ''description'' PNone = Inr d"
    by (cases "py_get c ''description'' PNone") (simp_all add: desc_match_def bind_err_def)
  from assms d obtain desc where l: "lower_method (py_or d (PStr [])) = Inr desc"
    by (cases "lower_method (py_or d (PStr []))") (simp_all add: desc_match_def bind_err_def)
  show ?thesis
  proof (cases "desc = []")
    case True
    then have "\<forall>s2. desc_match c row s2 = Inr (desc_loop desc [] s2)"
      using d l by (simp add: desc_match_def bind_err_def)
    then show ?thesis by blast
  next
    case False
    with assms d l obtain tokens where t: "context_tokens row = Inr tokens"
      by (cases "context_tokens row") (simp_all add: desc_match_def bind_err_def)
    have "\<forall>s2. desc_match c row s2 = Inr (desc_loop desc tokens s2)"
      using d l t False by (simp add: desc_match_def bind_err_def)
    then show ?thesis by blast
  qed
qed

lemma desc_match_nonneg: "desc_match c row score = Inr s \<Longrightarrow> 0 \<le> score \<Longrightarrow> 0 \<le> s"
proof -
  assume a: "desc_match c row score = Inr s" and n: "0 \<le> score"
  from desc_match_Inr [OF a] obtain desc tokens where
    "desc_match c row score = Inr (desc_loop desc tokens score)"
    by blast
  with a have "s = desc_loop desc tokens score" by simp
  with n show ?thesis by (simp add: desc_loop_nonneg)
qed

lemma score_text_nonneg: "score_text candidate row = Inr s \<Longrightarrow> 0 \<le> s"
proof -
  assume "score_text candidate row = Inr s"
  then obtain label trm where "desc_match candidate row (label_match label trm 0) = Inr s"
    by (auto simp: score_text_def bind_err_Inr_iff)
  moreover have "0 \<le> label_match label trm 0"
    by (simp add: label_match_nonneg)
  ultimately show ?thesis by (rule desc_match_nonneg)
qed

text \<open>The bonus of a run that returns, as a function of the score it is added to.\<close>

lemma sitelink_bonus_Inr:
  assumes "sitelink_bonus ent qid s = Inr s'"
  shows "\<exists>found. \<forall>s2. sitelink_bonus ent qid s2 =
           Inr (if found then fadd s2 (fl (20 / 100)) else s2)"
proof (cases "truthy ent")
  case False
  then have "\<forall>s2. sitelink_bonus ent qid s2 = Inr (if False then fadd s2 (fl (20 / 100)) else s2)"
    by (simp add: sitelink_bonus_def)
  then show ?thesis by blast
next
  case True
  from assms True obtain entities where 1: "py_get ent ''entities'' (PDict []) = Inr entities"
    by (cases "py_get ent ''entities'' (PDict [])") (simp_all add: sitelink_bonus_def bind_err_def)
  from assms True 1 obtain e where 2: "py_get_key entities qid (PDict []) = Inr e"
    by (cases "py_get_key entities qid (PDict [])") (simp_all add: sitelink_bonus_def bind_err_def)
  from assms True 1 2 obtain sl where 3: "py_get e ''sitelinks'' (PDict []) = Inr sl"
    by (cases "py_get e ''sitelinks'' (PDict [])") (simp_all add: sitelink_bonus_def bind_err_def)
  from assms True 1 2 3 obtain found where 4: "py_contains ''enwiki'' sl = Inr found"
    by (cases "py_contains ''enwiki'' sl") (simp_all add: sitelink_bonus_def bind_err_def)
  have "\<forall>s2. sitelink_bonus ent qid s2 = Inr (if found then fadd s2 (fl (20 / 100)) else s2)"
    using True 1 2 3 4 by (simp add: sitelink_bonus_def bind_err_def)
  then show ?thesis by blast
qed

lemma sitelink_bonus_nonneg: "sitelink_bonus ent qid score = Inr s \<Longrightarrow> 0 \<le> score \<Longrightarrow> 0 \<le> s"
proof -
  assume a: "sitelink_bonus ent qid score = Inr s" and n: "0 \<le> score"
  from sitelink_bonus_Inr [OF a] obtain found where
    "sitelink_bonus ent qid score = Inr (if found then fadd score (fl (20 / 100)) else score)"
    by blast
  with a have "s = (if found then fadd score (fl (20 / 100)) else score)" by simp
  with n show ?thesis by (simp add: fadd_nonneg fl_nonneg)
qed

lemma normalize_score_bounds: "0 \<le> s \<Longrightarrow> 0 \<le> normalize_score s \<and> normalize_score s \<le> 1"
  by (simp add: normalize_score_def)

text \<open>What a run of the scorer that returns has done: the text score, the identifier, one
  entity lookup, the bonus, the clamp.\<close>

lemma score_candidate_Inr:
  assumes "score_candidate nw candidate row lg = (Inr s, lg')"
  obtains score qid score' where
    "score_text candidate row = Inr score"
    "py_getitem candidate ''id'' = Inr qid"
    "sitelink_bonus (nw lg (Entity qid)) qid score = Inr score'"
    "s = normalize_score score'"
    "lg' = lg @ [Entity qid]"
  using assms
  by (auto simp: score_candidate_def get_entity_data_def request_def
           split: sum.splits)

text \<open>
  Claim C3. For every candidate, every record and every outcome of the entity lookup, the
  confidence that \<^verbatim>\<open>score_candidate\<close> returns lies between 0 and 1. The score starts at
  0.0; every literal that is added rounds to a non-negative float and the rounded sum of
  two non-negative floats is non-negative; line 86 clamps the result at 1.0.
\<close>

theorem score_candidate_bounds:
  "score_candidate nw candidate row lg = (Inr s, lg') \<Longrightarrow> 0 \<le> s \<and> s \<le> 1"
proof -
  assume "score_candidate nw candidate row lg = (Inr s, lg')"
  then obtain score qid score' where
    t: "score_text candidate row = Inr score" and
    b: "sitelink_bonus (nw lg (Entity qid)) qid score = Inr score'" and
    s: "s = normalize_score score'"
    by (rule score_candidate_Inr)
  have "0 \<le> score" using t by (rule score_text_nonneg)
  with b have "0 \<le> score'" by (rule sitelink_bonus_nonneg)
  then show ?thesis
    unfolding s by (rule normalize_score_bounds)
qed

theorem score_candidate_bounds_witness:
  "score_candidate net_berlin cand_berlin row_berlin [] = (Inr (3 / 4), [Entity (PStr ''Q64'')])
   \<and> (0::rat) \<le> 3 / 4 \<and> (3 / 4 :: rat) \<le> 1"
proof -
  have h: "score_candidate net_berlin cand_berlin row_berlin [] =
      (Inr (3 / 4), [Entity (PStr ''Q64'')])"
    using score_berlin [of "[]"] by simp
  show ?thesis
    using h score_candidate_bounds [OF h] by simp
qed

section \<open>Properties of the ranking\<close>







lemma candidate_dict_qid:
  "py_getitem (candidate_dict x) ''qid'' = Inr (fst x)"
  by (cases x) (simp add: candidate_dict_def py_getitem_def)
















text \<open>
  The confidence that is compared is the rounded sum. A label that contains the query
  label and two matching context tokens give 0.30 + 0.05 + 0.05, which is
  0.39999999999999997 in binary64: at the threshold 0.4 the candidate is not accepted.
\<close>

lemma score_berlin_wall_down:
  "score_candidate net_wall cand_berlin_wall row_berlin lg =
     (Inr (7205759403792793 / 18014398509481984), lg @ [Entity (PStr ''Q64'')])"
  by (simp add: row_berlin_def cand_berlin_wall_def str_simps val_simps score_simps fl_simps)

lemma rounded_sum_below_threshold:
  "find_candidates_for_row net_wall row_berlin (fl (4 / 10)) [] =
     (Inr (Ret_pair []
        [(PStr ''Q64'', PStr ''Berlin Wall'', PStr ''capital of Germany, in Europe'',
          7205759403792793 / 18014398509481984)]),
      [Search ''Berlin'', Entity (PStr ''Q64'')])
   \<and> fl (4 / 10) = 3602879701896397 / 9007199254740992
   \<and> (7205759403792793 / 18014398509481984 :: rat) < fl (4 / 10)"
  by (simp add: row_berlin_def cand_berlin_wall_def str_simps val_simps score_simps
       hit_fields_def search_hits_of_def conf_of_def py_sort_reverse_def rank_def
       find_candidates_for_row_def fl_simps)

section \<open>Properties of the loop\<close>

lemma already_resolved_guard:
  "row_get r ''wiki_qid'' = PStr q \<Longrightarrow> q \<noteq> [] \<Longrightarrow> q \<noteq> ''TBD'' \<Longrightarrow> skip_guard r"
  by (simp add: skip_guard_def)

lemma main_body_skip:
  "skip_guard (heap st a) \<Longrightarrow> main_body nw dumps th a st = Inr (append_result a st)"
  by (simp add: main_body_def)

text \<open>
  Claim C7. A row whose \<^verbatim>\<open>wiki_qid\<close> is a non-empty string other than \<^verbatim>\<open>TBD\<close> is skipped: the
  loop body appends a reference to the row itself to \<^verbatim>\<open>results\<close> and changes nothing else
  (no object is written, no request is made). Doing it a second time, with any network
  and any threshold, appends the same row again.
\<close>

theorem already_resolved_passed_through:
  assumes "row_get (heap st a) ''wiki_qid'' = PStr q" and "q \<noteq> []" and "q \<noteq> ''TBD''"
  shows "main_body nw dumps threshold a st = Inr (st\<lparr>results := results st @ [a]\<rparr>)
       \<and> main_body nw' dumps' threshold' a (st\<lparr>results := results st @ [a]\<rparr>) =
           Inr (st\<lparr>results := results st @ [a, a]\<rparr>)"
proof -
  have g: "skip_guard (heap st a)"
    using assms by (rule already_resolved_guard)
  then have g': "skip_guard (heap (st\<lparr>results := results st @ [a]\<rparr>) a)"
    by simp
  show ?thesis
    using main_body_skip [OF g, of nw dumps threshold]
      main_body_skip [OF g', of nw' dumps' threshold']
    by (simp add: append_result_def)
qed

theorem already_resolved_passed_through_witness:
  "row_get (heap (initial_state [row_q42]) 0) ''wiki_qid'' = PStr ''Q42''
   \<and> ''Q42'' \<noteq> [] \<and> ''Q42'' \<noteq> ''TBD''
   \<and> main_body net_down (\<lambda>v. []) (fl (8 / 10)) 0 (initial_state [row_q42]) =
       Inr ((initial_state [row_q42])\<lparr>results := [0]\<rparr>)
   \<and> main_body net_berlin (\<lambda>v. []) (1 / 2) 0 ((initial_state [row_q42])\<lparr>results := [0]\<rparr>) =
       Inr ((initial_state [row_q42])\<lparr>results := [0, 0]\<rparr>)"
proof -
  have h: "row_get (heap (initial_state [row_q42]) 0) ''wiki_qid'' = PStr ''Q42''"
    by (simp add: initial_state_def row_q42_def row_get_def)
  have n: "''Q42'' \<noteq> []" "''Q42'' \<noteq> ''TBD''"
    by simp_all
  show ?thesis
    using h n already_resolved_passed_through
      [OF h n, of net_down "\<lambda>v. []" "fl (8 / 10)" net_berlin "\<lambda>v. []" "1 / 2"]
    by (simp add: initial_state_def)
qed

text \<open>The three assignments write three keys of one object.\<close>

lemma attach_Inr:
  assumes "attach dumps candidates scored r_out st = Inr st2"
  obtains v1 v2 v3 where
    "st2 = st\<lparr>heap := (heap st)(r_out := (heap st r_out)
        (''wiki_qid_candidates'' \<mapsto> v1, ''wiki_qid'' \<mapsto> v2, ''wiki_qid_confidence'' \<mapsto> v3))\<rparr>"
  using assms
  by (cases candidates) (auto simp: attach_def setitem_def Let_def bind_err_Inr_iff)

lemma main_body_resolved:
  assumes "\<not> skip_guard (heap st a)" and "main_body nw dumps th a st = Inr st'"
  obtains lg v1 v2 v3 where
    "st' = \<lparr>heap = (heap st)(free_addr st := (heap st a)
        (''wiki_qid_candidates'' \<mapsto> v1, ''wiki_qid'' \<mapsto> v2, ''wiki_qid_confidence'' \<mapsto> v3)),
       free_addr = Suc (free_addr st), results = results st @ [free_addr st], calls = lg\<rparr>"
proof -
  from assms obtain v lg candidates scored st2 where
    "find_candidates_for_row nw (heap st a) th (calls st) = (Inr v, lg)" and
    "unpack2 v = Inr (candidates, scored)" and
    a: "attach dumps candidates scored (free_addr st)
          (st\<lparr>calls := lg, heap := (heap st)(free_addr st := heap st a),
              free_addr := Suc (free_addr st)\<rparr>) = Inr st2" and
    s: "st' = append_result (free_addr st) st2"
    by (auto simp: main_body_def Let_def bind_err_Inr_iff dict_copy_def
        split: sum.splits prod.splits)
  from a obtain v1 v2 v3 where
    "st2 = (st\<lparr>calls := lg, heap := (heap st)(free_addr st := heap st a),
              free_addr := Suc (free_addr st)\<rparr>)
        \<lparr>heap := (heap (st\<lparr>calls := lg, heap := (heap st)(free_addr st := heap st a),
              free_addr := Suc (free_addr st)\<rparr>))
          (free_addr st := (heap (st\<lparr>calls := lg, heap := (heap st)(free_addr st := heap st a),
              free_addr := Suc (free_addr st)\<rparr>) (free_addr st))
        (''wiki_qid_candidates'' \<mapsto> v1, ''wiki_qid'' \<mapsto> v2, ''wiki_qid_confidence'' \<mapsto> v3))\<rparr>"
    by (rule attach_Inr)
  with s have "st' = \<lparr>heap = (heap st)(free_addr st := (heap st a)
        (''wiki_qid_candidates'' \<mapsto> v1, ''wiki_qid'' \<mapsto> v2, ''wiki_qid_confidence'' \<mapsto> v3)),
       free_addr = Suc (free_addr st), results = results st @ [free_addr st], calls = lg\<rparr>"
    by (simp add: append_result_def)
  then show ?thesis by (rule that)
qed

lemma main_berlin_half:
  "main_body net_berlin dumps (1 / 2) 0 (initial_state [row_berlin]) =
     Inr \<lparr>heap = (heap (initial_state [row_berlin]))
            (1 := row_berlin
               (''wiki_qid_candidates'' \<mapsto>
                  PStr (dumps (PList [candidate_dict
                    (PStr ''Q64'', PStr ''Berlin'', PStr ''capital of Germany, in Europe'', 3 / 4)])),
                ''wiki_qid'' \<mapsto> PStr ''Q64'',
                ''wiki_qid_confidence'' \<mapsto> PFloat (3 / 4))),
          free_addr = 2, results = [1],
          calls = [Search ''Berlin'', Entity (PStr ''Q64'')]\<rparr>"
  by (simp add: initial_state_def berlin_simps str_simps val_simps score_simps resolve_simps
       fl_simps)

text \<open>
  Claim C10. When a row that is not skipped is resolved (the loop body returns), the
  output row is a new object, appended to \<^verbatim>\<open>results\<close>; it agrees with the input row on
  every key other than \<^verbatim>\<open>wiki_qid\<close>, \<^verbatim>\<open>wiki_qid_candidates\<close> and \<^verbatim>\<open>wiki_qid_confidence\<close>, which
  it holds; and no object that existed before, the input row among them, is written.
\<close>

theorem resolved_row_frame:
  assumes "\<not> skip_guard (heap st a)"
      and "main_body nw dumps threshold a st = Inr st'"
      and "a < free_addr st"
  shows "results st' = results st @ [free_addr st]
       \<and> heap st' a = heap st a
       \<and> (\<forall>b. b \<noteq> free_addr st \<longrightarrow> heap st' b = heap st b)
       \<and> (\<forall>k. k \<noteq> ''wiki_qid'' \<and> k \<noteq> ''wiki_qid_candidates'' \<and> k \<noteq> ''wiki_qid_confidence''
              \<longrightarrow> heap st' (free_addr st) k = heap st a k)
       \<and> heap st' (free_addr st) ''wiki_qid'' \<noteq> None
       \<and> heap st' (free_addr st) ''wiki_qid_candidates'' \<noteq> None
       \<and> heap st' (free_addr st) ''wiki_qid_confidence'' \<noteq> None"
proof -
  from assms(1,2) obtain lg v1 v2 v3 where
    "st' = \<lparr>heap = (heap st)(free_addr st := (heap st a)
        (''wiki_qid_candidates'' \<mapsto> v1, ''wiki_qid'' \<mapsto> v2, ''wiki_qid_confidence'' \<mapsto> v3)),
       free_addr = Suc (free_addr st), results = results st @ [free_addr st], calls = lg\<rparr>"
    by (rule main_body_resolved)
  with assms(3) show ?thesis by simp
qed

theorem resolved_row_frame_witness:
  "\<not> skip_guard (heap (initial_state [row_berlin]) 0)
   \<and> 0 < free_addr (initial_state [row_berlin])
   \<and> (\<exists>st'. main_body net_berlin (\<lambda>v. []) (1 / 2) 0 (initial_state [row_berlin]) = Inr st'
        \<and> results st' = [1]
        \<and> heap st' 0 = row_berlin
        \<and> heap st' 1 ''word'' = Some (PStr ''Berlin'')
        \<and> heap st' 1 ''geo_path'' = Some (PStr ''Germany Europe'')
        \<and> heap st' 1 ''wiki_qid'' = Some (PStr ''Q64'')
        \<and> heap st' 1 ''wiki_qid_confidence'' = Some (PFloat (3 / 4)))"
proof -
  let ?st = "initial_state [row_berlin]"
  let ?st' = "\<lparr>heap = (heap ?st)
            (1 := row_berlin
               (''wiki_qid_candidates'' \<mapsto>
                  PStr ((\<lambda>v. []) (PList [candidate_dict
                    (PStr ''Q64'', PStr ''Berlin'', PStr ''capital of Germany, in Europe'', 3 / 4)])),
                ''wiki_qid'' \<mapsto> PStr ''Q64'',
                ''wiki_qid_confidence'' \<mapsto> PFloat (3 / 4))),
          free_addr = 2, results = [1],
          calls = [Search ''Berlin'', Entity (PStr ''Q64'')]\<rparr>"
  have g: "\<not> skip_guard (heap ?st 0)"
    by (simp add: initial_state_def skip_guard_def row_berlin_def row_get_def)
  have m: "main_body net_berlin (\<lambda>v. []) (1 / 2) 0 ?st = Inr ?st'"
    by (rule main_berlin_half)
  have l: "0 < free_addr ?st"
    by (simp add: initial_state_def)
  note w = resolved_row_frame [OF g m l]
  have "results ?st' = [1] \<and> heap ?st' 0 = row_berlin
      \<and> heap ?st' 1 ''word'' = Some (PStr ''Berlin'')
      \<and> heap ?st' 1 ''geo_path'' = Some (PStr ''Germany Europe'')
      \<and> heap ?st' 1 ''wiki_qid'' = Some (PStr ''Q64'')
      \<and> heap ?st' 1 ''wiki_qid_confidence'' = Some (PFloat (3 / 4))"
    using w by (simp add: initial_state_def row_berlin_def)
  with g l m show ?thesis by blast
qed

text \<open>The description loop adds 0.05 once for every context token that is not empty and
  occurs in the description.\<close>

lemma desc_loop_funpow:
  "desc_loop desc tokens score =
     ((\<lambda>x. fadd x (fl (5 / 100))) ^^ length (filter (\<lambda>t. t \<noteq> [] \<and> str_in t desc) tokens))
       score"
  by (induction tokens arbitrary: score) (simp_all add: funpow_Suc_right del: funpow.simps)

lemma py_lower_eq_Nil [simp]: "py_lower d = [] \<longleftrightarrow> d = []"
  by (simp add: py_lower_def)

text \<open>The score of an exact label match with two matching context tokens and an English
  Wikipedia sitelink, for any row and any earlier requests: the floats 0.45, 0.5, 0.55
  and 0.75.\<close>

lemma score_exact_link_two:
  assumes exact: "candidate_label (PDict kvs) = Inr l" "row_term row = Inr l"
    and desc: "map_of kvs ''description'' = Some (PStr d)" "d \<noteq> []"
    and toks: "context_tokens row = Inr tokens"
      "length (filter (\<lambda>t. t \<noteq> [] \<and> str_in t (py_lower d)) tokens) = 2"
    and qid: "map_of kvs ''id'' = Some (PStr q)"
    and link: "nw lg (Entity (PStr q)) = PDict e" "map_of e ''entities'' = Some (PDict es)"
      "map_of es q = Some (PDict ekv)" "map_of ekv ''sitelinks'' = Some (PDict sl)"
      "map_of sl ''enwiki'' = Some v"
  shows "score_candidate nw (PDict kvs) row lg = (Inr (3 / 4), lg @ [Entity (PStr q)])"
proof -
  have a: "label_match l l 0 = fl (45 / 100)"
    by (simp add: label_match_def fl_simps)
  have "desc_match (PDict kvs) row (fl (45 / 100)) =
      Inr (fadd (fadd (fl (45 / 100)) (fl (5 / 100))) (fl (5 / 100)))"
    using desc toks
    by (simp add: desc_match_def py_get_def bind_err_def py_or_def lower_method_def
        desc_loop_funpow numeral_2_eq_2)
  moreover have "fadd (fadd (fl (45 / 100)) (fl (5 / 100))) (fl (5 / 100)) = fl (55 / 100)"
    by (simp add: fl_simps)
  ultimately have d: "desc_match (PDict kvs) row (fl (45 / 100)) = Inr (fl (55 / 100))"
    by (simp only:)
  have t: "score_text (PDict kvs) row = Inr (fl (55 / 100))"
    using exact d by (simp add: score_text_def bind_err_def a)
  from link(2) have "e \<noteq> []" by auto
  then have "sitelink_bonus (nw lg (Entity (PStr q))) (PStr q) (fl (55 / 100)) =
      Inr (fadd (fl (55 / 100)) (fl (20 / 100)))"
    using link
    by (simp add: sitelink_bonus_def py_get_def py_get_key_def py_contains_def bind_err_def)
  moreover have "fadd (fl (55 / 100)) (fl (20 / 100)) = 3 / 4"
    by (simp add: fl_simps)
  ultimately have b: "sitelink_bonus (nw lg (Entity (PStr q))) (PStr q) (fl (55 / 100)) =
      Inr (3 / 4)"
    by (simp only:)
  show ?thesis
    using t qid b
    by (simp add: score_candidate_def py_getitem_def get_entity_data_def request_def
        normalize_score_def)
qed

lemma context_tokens_berlin: "context_tokens row_berlin = Inr [''germany'', ''europe'', ''city'']"
  by (simp add: context_tokens_def row_berlin_def val_simps str_simps)

text \<open>Such a hit is not accepted at any threshold above 0.75, and the row stays
  unresolved.\<close>

lemma exact_link_two_below:
  assumes g: "\<not> skip_guard (heap st a)"
    and lbl: "py_or (row_get (heap st a) ''wiki_label'') (row_get (heap st a) ''word'') = PStr s"
      "s \<noteq> []"
    and res: "nw (calls st) (Search s) = PDict res"
      "map_of res ''search'' = Some (PList [PDict kvs])"
    and qid: "map_of kvs ''id'' = Some (PStr q)"
    and desc: "map_of kvs ''description'' = Some (PStr d)"
    and sc: "score_candidate nw (PDict kvs) (heap st a) (calls st @ [Search s]) =
           (Inr (3 / 4), calls st @ [Search s, Entity (PStr q)])"
    and th: "3 / 4 < th"
  shows "find_candidates_for_row nw (heap st a) th (calls st) =
           (Inr (Ret_pair []
              [(PStr q, (case map_of kvs ''label'' of None \<Rightarrow> PNone | Some x \<Rightarrow> x),
                PStr d, 3 / 4)]),
            calls st @ [Search s, Entity (PStr q)])
       \<and> (\<exists>st'. main_body nw dumps th a st = Inr st'
              \<and> results st' = results st @ [free_addr st]
              \<and> heap st' (free_addr st) ''wiki_qid'' = Some (PStr [])
              \<and> heap st' (free_addr st) ''wiki_qid_confidence'' = Some (PStr []))"
proof -
  let ?row = "heap st a"
  let ?lg = "calls st @ [Search s]"
  let ?t = "(PStr q, (case map_of kvs ''label'' of None \<Rightarrow> PNone | Some x \<Rightarrow> x),
             PStr d, 3 / 4 :: rat)"
  have hf: "hit_fields (PDict kvs) =
      Inr (PStr q, (case map_of kvs ''label'' of None \<Rightarrow> PNone | Some x \<Rightarrow> x), PStr d)"
    using qid desc by (simp add: hit_fields_def py_getitem_def py_get_def bind_err_def)
  have sh: "score_hits nw ?row [PDict kvs] [] ?lg = (Inr [?t], ?lg @ [Entity (PStr q)])"
    using sc hf by simp
  from res(2) have "res \<noteq> []" by auto
  then have hits: "truthy (nw (calls st) (Search s))"
    "search_hits_of (nw (calls st) (Search s)) = Inr [PDict kvs]"
    using res by (simp_all add: search_hits_of_def py_get_def py_iter_def bind_err_def)
  have rk: "rank th [?t] = ([], [?t])"
    using th by (simp add: rank_def py_sort_reverse_def conf_of_def)
  have fc: "find_candidates_for_row nw ?row th (calls st) =
      (Inr (Ret_pair [] [?t]), calls st @ [Search s, Entity (PStr q)])"
    using lbl hits sh rk
    by (simp add: find_candidates_for_row_def search_wikidata_def request_def)
  have "\<exists>st'. main_body nw dumps th a st = Inr st'
              \<and> results st' = results st @ [free_addr st]
              \<and> heap st' (free_addr st) ''wiki_qid'' = Some (PStr [])
              \<and> heap st' (free_addr st) ''wiki_qid_confidence'' = Some (PStr [])"
    using g fc
    by (simp add: main_body_def unpack2_def bind_err_def dict_copy_def attach_def setitem_def
        append_result_def Let_def)
  with fc show ?thesis by (rule conjI)
qed

lemma default_threshold: "fl (8 / 10) = 3602879701896397 / 4503599627370496"
  by (simp add: fl_simps)

text \<open>
  Claim C9. A row is resolved whose search returns one hit. The hit's label equals the
  query label up to case, its description holds exactly two of the row's context tokens,
  and its entity document has an English Wikipedia sitelink. Then the hit scores
  0.45 + 0.05 + 0.05 + 0.20, which is the float 0.75; with the threshold 0.80, as the
  fraction \<open>8 / 10\<close> and as the float of the default argument, the accepted list is empty;
  and the output row is unresolved: \<^verbatim>\<open>wiki_qid\<close> and \<^verbatim>\<open>wiki_qid_confidence\<close> are the empty
  string.
\<close>

theorem exact_link_two_tokens_unresolved:
  assumes g: "\<not> skip_guard (heap st a)"
    and lbl: "py_or (row_get (heap st a) ''wiki_label'') (row_get (heap st a) ''word'') = PStr s"
      "s \<noteq> []"
    and res: "nw (calls st) (Search s) = PDict res"
      "map_of res ''search'' = Some (PList [PDict kvs])"
    and exact: "candidate_label (PDict kvs) = Inr (py_lower s)"
    and desc: "map_of kvs ''description'' = Some (PStr d)" "d \<noteq> []"
    and toks: "context_tokens (heap st a) = Inr tokens"
      "length (filter (\<lambda>t. t \<noteq> [] \<and> str_in t (py_lower d)) tokens) = 2"
    and qid: "map_of kvs ''id'' = Some (PStr q)"
    and link: "nw (calls st @ [Search s]) (Entity (PStr q)) = PDict e"
      "map_of e ''entities'' = Some (PDict es)"
      "map_of es q = Some (PDict ekv)" "map_of ekv ''sitelinks'' = Some (PDict sl)"
      "map_of sl ''enwiki'' = Some v"
  shows "score_candidate nw (PDict kvs) (heap st a) (calls st @ [Search s]) =
           (Inr (3 / 4), calls st @ [Search s, Entity (PStr q)])
       \<and> find_candidates_for_row nw (heap st a) (8 / 10) (calls st) =
           (Inr (Ret_pair []
              [(PStr q, (case map_of kvs ''label'' of None \<Rightarrow> PNone | Some x \<Rightarrow> x),
                PStr d, 3 / 4)]),
            calls st @ [Search s, Entity (PStr q)])
       \<and> (\<exists>st'. main_body nw dumps (8 / 10) a st = Inr st'
              \<and> results st' = results st @ [free_addr st]
              \<and> heap st' (free_addr st) ''wiki_qid'' = Some (PStr [])
              \<and> heap st' (free_addr st) ''wiki_qid_confidence'' = Some (PStr []))
       \<and> find_candidates_for_row nw (heap st a) (fl (8 / 10)) (calls st) =
           (Inr (Ret_pair []
              [(PStr q, (case map_of kvs ''label'' of None \<Rightarrow> PNone | Some x \<Rightarrow> x),
                PStr d, 3 / 4)]),
            calls st @ [Search s, Entity (PStr q)])
       \<and> (\<exists>st'. main_body nw dumps (fl (8 / 10)) a st = Inr st'
              \<and> results st' = results st @ [free_addr st]
              \<and> heap st' (free_addr st) ''wiki_qid'' = Some (PStr [])
              \<and> heap st' (free_addr st) ''wiki_qid_confidence'' = Some (PStr []))"
proof -
  let ?row = "heap st a"
  let ?lg = "calls st @ [Search s]"
  have rt: "row_term ?row = Inr (py_lower s)"
    using lbl by (simp add: row_term_def py_or_def lower_method_def)
  have "score_candidate nw (PDict kvs) ?row ?lg = (Inr (3 / 4), ?lg @ [Entity (PStr q)])"
    using exact rt desc toks qid link by (rule score_exact_link_two)
  then have sc: "score_candidate nw (PDict kvs) ?row ?lg =
      (Inr (3 / 4), calls st @ [Search s, Entity (PStr q)])"
    by simp
  have t1: "(3 / 4 :: rat) < 8 / 10"
    by simp
  have t2: "3 / 4 < fl (8 / 10)"
    by (simp add: fl_simps)
  note r1 = exact_link_two_below [OF g lbl res qid desc(1) sc t1, of dumps]
  note r2 = exact_link_two_below [OF g lbl res qid desc(1) sc t2, of dumps]
  show ?thesis
    by (rule conjI [OF sc conjI [OF conjunct1 [OF r1] conjI [OF conjunct2 [OF r1] r2]]])
qed

theorem exact_link_two_tokens_unresolved_witness:
  "\<not> skip_guard (heap (initial_state [row_berlin]) 0)
   \<and> candidate_label cand_berlin = Inr (py_lower ''Berlin'')
   \<and> length (filter (\<lambda>t. t \<noteq> [] \<and> str_in t (py_lower ''capital of Germany, in Europe''))
        [''germany'', ''europe'', ''city'']) = 2
   \<and> score_candidate net_berlin cand_berlin row_berlin [Search ''Berlin''] =
       (Inr (3 / 4), [Search ''Berlin'', Entity (PStr ''Q64'')])
   \<and> (\<exists>st'. main_body net_berlin (\<lambda>v. []) (8 / 10) 0 (initial_state [row_berlin]) = Inr st'
          \<and> results st' = [1]
          \<and> heap st' 1 ''wiki_qid'' = Some (PStr [])
          \<and> heap st' 1 ''wiki_qid_confidence'' = Some (PStr []))
   \<and> (\<exists>st'. main_body net_berlin (\<lambda>v. []) (fl (8 / 10)) 0 (initial_state [row_berlin]) = Inr st'
          \<and> results st' = [1]
          \<and> heap st' 1 ''wiki_qid'' = Some (PStr [])
          \<and> heap st' 1 ''wiki_qid_confidence'' = Some (PStr []))"
proof -
  let ?st = "initial_state [row_berlin]"
  let ?kvs = "[(''id'', PStr ''Q64''), (''label'', PStr ''Berlin''),
            (''description'', PStr ''capital of Germany, in Europe'')]"
  have r: "heap ?st 0 = row_berlin" "calls ?st = []" "results ?st = []" "free_addr ?st = 1"
    by (simp_all add: initial_state_def)
  have g: "\<not> skip_guard (heap ?st 0)"
    by (simp add: initial_state_def skip_guard_def row_berlin_def row_get_def)
  have lbl:
    "py_or (row_get (heap ?st 0) ''wiki_label'') (row_get (heap ?st 0) ''word'') = PStr ''Berlin''"
    "''Berlin'' \<noteq> []"
    by (simp_all add: initial_state_def row_berlin_def row_get_def py_or_def)
  have res: "net_berlin (calls ?st) (Search ''Berlin'') = PDict [(''search'', PList [cand_berlin])]"
    "map_of [(''search'', PList [cand_berlin])] ''search'' = Some (PList [PDict ?kvs])"
    by (simp_all add: cand_berlin_def)
  have exact: "candidate_label (PDict ?kvs) = Inr (py_lower ''Berlin'')"
    by (simp add: candidate_label_def val_simps)
  have desc: "map_of ?kvs ''description'' = Some (PStr ''capital of Germany, in Europe'')"
    "''capital of Germany, in Europe'' \<noteq> []"
    by simp_all
  have toks: "context_tokens (heap ?st 0) = Inr [''germany'', ''europe'', ''city'']"
    "length (filter (\<lambda>t. t \<noteq> [] \<and> str_in t (py_lower ''capital of Germany, in Europe''))
        [''germany'', ''europe'', ''city'']) = 2"
    by (simp_all add: r context_tokens_berlin str_simps)
  have qid: "map_of ?kvs ''id'' = Some (PStr ''Q64'')"
    by simp
  have link: "net_berlin (calls ?st @ [Search ''Berlin'']) (Entity (PStr ''Q64'')) =
      PDict [(''entities'',
        PDict [(''Q64'', PDict [(''sitelinks'', PDict [(''enwiki'', PDict [])])])])]"
    "map_of [(''entities'',
        PDict [(''Q64'', PDict [(''sitelinks'', PDict [(''enwiki'', PDict [])])])])]
       ''entities'' = Some (PDict [(''Q64'', PDict [(''sitelinks'', PDict [(''enwiki'', PDict [])])])])"
    "map_of [(''Q64'', PDict [(''sitelinks'', PDict [(''enwiki'', PDict [])])])] ''Q64'' =
       Some (PDict [(''sitelinks'', PDict [(''enwiki'', PDict [])])])"
    "map_of [(''sitelinks'', PDict [(''enwiki'', PDict [])])] ''sitelinks'' =
       Some (PDict [(''enwiki'', PDict [])])"
    "map_of [(''enwiki'', PDict [])] ''enwiki'' = Some (PDict [])"
    by (simp_all add: entity_berlin_def)
  note w = exact_link_two_tokens_unresolved
    [OF g lbl res exact desc toks qid link, of "\<lambda>v. []"]
  show ?thesis
    using g exact toks(2) w by (simp add: r cand_berlin_def)
qed

lemma main_body_Ret_empty_list:
  "\<not> skip_guard (heap st a) \<Longrightarrow>
   find_candidates_for_row nw (heap st a) th (calls st) = (Inr Ret_empty_list, lg) \<Longrightarrow>
   main_body nw dumps th a st = Inl ValueError"
  by (simp add: main_body_def unpack2_def bind_err_def)

text \<open>
  Claim C1, at a failing input. Every request fails. For the row Berlin, which needs an
  identifier, \<^verbatim>\<open>find_candidates_for_row\<close> returns the bare empty list of line 97, the
  unpacking of line 121 raises ValueError, and the run over two rows ends there, at any
  threshold: the second row is never processed and no output row is produced.
\<close>

theorem no_results_aborts_run:
  "find_candidates_for_row net_down row_berlin threshold [] =
     (Inr Ret_empty_list, [Search ''Berlin''])
   \<and> main_rows net_down dumps threshold [row_berlin, row_paris] = Inl ValueError"
proof -
  have f: "find_candidates_for_row net_down row_berlin threshold [] =
      (Inr Ret_empty_list, [Search ''Berlin''])"
    by (simp add: find_candidates_for_row_def row_berlin_def net_down_def val_simps)
  have g: "\<not> skip_guard row_berlin"
    by (simp add: skip_guard_def row_berlin_def row_get_def)
  have "main_body net_down dumps threshold 0 (initial_state [row_berlin, row_paris]) =
      Inl ValueError"
    using g f by (intro main_body_Ret_empty_list [where lg = "[Search ''Berlin'']"])
      (simp_all add: initial_state_def)
  then have "main_rows net_down dumps threshold [row_berlin, row_paris] = Inl ValueError"
    by (simp add: main_rows_def)
  with f show ?thesis by simp
qed

text \<open>
  Claim C8, at a failing input. The row has the columns \<^verbatim>\<open>wiki_label\<close> and \<^verbatim>\<open>word\<close>, both
  empty, and \<^verbatim>\<open>wiki_qid\<close> is \<^verbatim>\<open>TBD\<close>. The guard of line 117 does not hold (it asks for
  \<^verbatim>\<open>wiki_label\<close> to be \<^verbatim>\<open>None\<close>), \<^verbatim>\<open>find_candidates_for_row\<close> returns the bare empty list of
  line 94 without a request, and the unpacking of line 121 raises ValueError.
\<close>

theorem blank_label_aborts_run:
  "\<not> skip_guard row_blank
   \<and> find_candidates_for_row nw row_blank threshold lg = (Inr Ret_empty_list, lg)
   \<and> main_rows nw dumps threshold [row_blank] = Inl ValueError"
proof -
  have f: "find_candidates_for_row nw row_blank threshold lg = (Inr Ret_empty_list, lg)" for lg
    by (simp add: find_candidates_for_row_def row_blank_def val_simps)
  have g: "\<not> skip_guard row_blank"
    by (simp add: skip_guard_def row_blank_def row_get_def)
  have "main_body nw dumps threshold 0 (initial_state [row_blank]) = Inl ValueError"
    using g f by (intro main_body_Ret_empty_list [where lg = "[]"])
      (simp_all add: initial_state_def)
  then have "main_rows nw dumps threshold [row_blank] = Inl ValueError"
    by (simp add: main_rows_def)
  with f g show ?thesis by simp
qed

section \<open>The label tier\<close>



















section \<open>The scorer on well-formed and on malformed values\<close>

lemma str_or_falsy_lower:
  "str_or_falsy v \<Longrightarrow> \<exists>s. lower_method (py_or v (PStr [])) = Inr s"
  by (cases v) (simp_all add: str_or_falsy_def py_or_def lower_method_def)

lemma wf_candidate_label:
  "wf_candidate c \<Longrightarrow> \<exists>l. candidate_label c = Inr l"
  by (cases c)
    (simp_all add: wf_candidate_def candidate_label_def py_get_def bind_err_def member_or_def
      str_or_falsy_lower)

lemma wf_row_term: "wf_row row \<Longrightarrow> \<exists>t. row_term row = Inr t"
proof -
  assume w: "wf_row row"
  have "str_or_falsy (py_or (row_get row ''wiki_label'') (row_get row ''word''))"
    using w by (simp add: wf_row_def py_or_def)
  then show ?thesis
    unfolding row_term_def by (rule str_or_falsy_lower)
qed

lemma is_strE: "is_str v \<Longrightarrow> (\<And>s. v = PStr s \<Longrightarrow> P) \<Longrightarrow> P"
  by (cases v) (simp_all add: is_str_def)

lemma wf_row_tokens: "wf_row row \<Longrightarrow> \<exists>tokens. context_tokens row = Inr tokens"
proof -
  assume w: "wf_row row"
  then obtain g where g: "row_get_default row ''geo_path'' (PStr []) = PStr g"
    by (auto simp: wf_row_def elim: is_strE)
  from w obtain t where t: "row_get_default row ''time_path'' (PStr []) = PStr t"
    by (auto simp: wf_row_def elim: is_strE)
  from w obtain c where c: "row_get_default row ''category'' (PStr []) = PStr c"
    by (auto simp: wf_row_def elim: is_strE)
  show ?thesis
    by (simp add: context_tokens_def g t c str_add_def bind_err_def lower_method_def)
qed

lemma wf_desc_match:
  assumes "wf_candidate c" and "wf_row row"
  shows "\<exists>s'. desc_match c row s = Inr s'"
proof -
  from assms(1) obtain kvs where c: "c = PDict kvs"
    by (cases c) (simp_all add: wf_candidate_def)
  with assms(1) have "str_or_falsy (member_or kvs ''description'' PNone)"
    by (simp add: wf_candidate_def)
  then obtain desc where
    d: "lower_method (py_or (member_or kvs ''description'' PNone) (PStr [])) = Inr desc"
    using str_or_falsy_lower by blast
  from assms(2) obtain tokens where t: "context_tokens row = Inr tokens"
    using wf_row_tokens by blast
  show ?thesis
    using d t by (simp add: desc_match_def c py_get_def bind_err_def member_or_def)
qed

lemma wf_score_text:
  assumes "wf_candidate c" and "wf_row row"
  shows "\<exists>s. score_text c row = Inr s"
proof -
  from assms(1) obtain l where l: "candidate_label c = Inr l"
    using wf_candidate_label by blast
  from assms(2) obtain t where t: "row_term row = Inr t"
    using wf_row_term by blast
  from wf_desc_match [OF assms] obtain s where
    "desc_match c row (label_match l t 0) = Inr s"
    by blast
  then show ?thesis
    by (simp add: score_text_def l t bind_err_def)
qed

lemma wf_sitelink_bonus:
  "wf_entity ent q \<Longrightarrow> \<exists>s'. sitelink_bonus ent (PStr q) s = Inr s'"
  by (cases ent)
    (auto simp: wf_entity_def sitelink_bonus_def py_get_def py_get_key_def py_contains_def
      bind_err_def member_or_def is_dict_def split: pyval.splits)

lemma falsy_sitelink_bonus: "\<not> truthy ent \<Longrightarrow> sitelink_bonus ent qid s = Inr s"
  by (simp add: sitelink_bonus_def)

lemma wf_candidate_id:
  "wf_candidate c \<Longrightarrow> \<exists>q. py_getitem c ''id'' = Inr (PStr q)"
  by (cases c)
    (auto simp: wf_candidate_def py_getitem_def member_or_def is_str_def
      split: option.splits pyval.splits)

lemma wf_hit_fields: "wf_candidate c \<Longrightarrow> \<exists>t. hit_fields c = Inr t"
proof -
  assume w: "wf_candidate c"
  then obtain q where q: "py_getitem c ''id'' = Inr (PStr q)"
    using wf_candidate_id by blast
  from w obtain kvs where c: "c = PDict kvs"
    by (cases c) (simp_all add: wf_candidate_def)
  show ?thesis
    using q by (simp add: hit_fields_def bind_err_def c py_get_def)
qed

lemma wf_score_candidate:
  assumes c: "wf_candidate c" and row: "wf_row row"
    and ent: "\<forall>lg q. wf_entity (nw lg (Entity (PStr q))) q"
  shows "\<exists>s q. score_candidate nw c row lg = (Inr s, lg @ [Entity (PStr q)])
           \<and> py_getitem c ''id'' = Inr (PStr q)
           \<and> (\<not> truthy (nw lg (Entity (PStr q)))
                \<longrightarrow> (\<exists>s0. score_text c row = Inr s0 \<and> s = normalize_score s0))"
proof -
  from wf_score_text [OF c row] obtain s0 where t: "score_text c row = Inr s0"
    by blast
  from c obtain q where q: "py_getitem c ''id'' = Inr (PStr q)"
    using wf_candidate_id by blast
  from ent have "wf_entity (nw lg (Entity (PStr q))) q"
    by blast
  then obtain s1 where b: "sitelink_bonus (nw lg (Entity (PStr q))) (PStr q) s0 = Inr s1"
    using wf_sitelink_bonus by blast
  have r: "score_candidate nw c row lg = (Inr (normalize_score s1), lg @ [Entity (PStr q)])"
    using t q b by (simp add: score_candidate_def get_entity_data_def request_def)
  have "\<not> truthy (nw lg (Entity (PStr q))) \<longrightarrow> s1 = s0"
    using b by (auto simp: falsy_sitelink_bonus)
  with r q t show ?thesis
    by blast
qed

lemma wf_score_hits:
  assumes row: "wf_row row"
    and ent: "\<forall>lg q. wf_entity (nw lg (Entity (PStr q))) q"
  shows "list_all wf_candidate hits \<Longrightarrow> \<exists>out lg'. score_hits nw row hits acc lg = (Inr out, lg')"
proof (induction hits arbitrary: acc lg)
  case Nil
  show ?case by simp
next
  case (Cons c cs)
  from Cons.prems have c: "wf_candidate c" and cs: "list_all wf_candidate cs"
    by simp_all
  from wf_score_candidate [OF c row ent, of lg] obtain s lg1 where
    s: "score_candidate nw c row lg = (Inr s, lg1)"
    by blast
  from wf_hit_fields [OF c] obtain qid lbl desc where f: "hit_fields c = Inr (qid, lbl, desc)"
    by (metis prod_cases3)
  from Cons.IH [OF cs, of "acc @ [(qid, lbl, desc, s)]" lg1] show ?case
    using s f by simp
qed

lemma wf_find_candidates:
  assumes row: "wf_row row"
    and ent: "\<forall>lg q. wf_entity (nw lg (Entity (PStr q))) q"
    and srch: "\<forall>lg s. wf_search (nw lg (Search s))"
  shows "\<exists>v lg'. find_candidates_for_row nw row th lg = (Inr v, lg')"
proof -
  let ?label = "py_or (row_get row ''wiki_label'') (row_get row ''word'')"
  have sf: "str_or_falsy ?label"
    using row by (simp add: wf_row_def py_or_def)
  show ?thesis
  proof (cases "truthy ?label")
    case False
    then show ?thesis
      by (simp add: find_candidates_for_row_def)
  next
    case True
    with sf obtain s where l: "?label = PStr s"
      by (cases ?label) (simp_all add: str_or_falsy_def)
    let ?res = "nw lg (Search s)"
    have sw: "search_wikidata nw ?label lg = (Inr ?res, lg @ [Search s])"
      by (simp add: l search_wikidata_def request_def)
    show ?thesis
    proof (cases "truthy ?res")
      case False
      with True sw show ?thesis
        by (simp add: find_candidates_for_row_def)
    next
      case t: True
      from srch have "wf_search ?res" by blast
      with t obtain hits where h: "search_hits_of ?res = Inr hits" "list_all wf_candidate hits"
        by (cases ?res)
          (auto simp: wf_search_def search_hits_of_def py_get_def py_iter_def bind_err_def
            member_or_def split: pyval.splits)
      from wf_score_hits [OF row ent h(2), of "[]" "lg @ [Search s]"] obtain out lg' where
        "score_hits nw row hits [] (lg @ [Search s]) = (Inr out, lg')"
        by blast
      with True t sw h(1) show ?thesis
        by (simp add: find_candidates_for_row_def split: prod.splits)
    qed
  qed
qed

text \<open>
  Claim C2, as amended. For every row of the accepted shape and every network whose
  entity replies are of the accepted shape, scoring a hit of the accepted shape returns a
  confidence after exactly one entity lookup, and a failed or absent lookup adds no
  bonus: the confidence is the clamped text score. If the search replies are of the
  accepted shape as well, \<^verbatim>\<open>find_candidates_for_row\<close> returns for every threshold.
\<close>

theorem scoring_total_on_well_formed:
  assumes row: "wf_row row"
    and ent: "\<forall>lg q. wf_entity (nw lg (Entity (PStr q))) q"
  shows "(\<forall>c lg. wf_candidate c \<longrightarrow>
            (\<exists>s q. score_candidate nw c row lg = (Inr s, lg @ [Entity (PStr q)])
               \<and> py_getitem c ''id'' = Inr (PStr q)
               \<and> (\<not> truthy (nw lg (Entity (PStr q)))
                    \<longrightarrow> (\<exists>s0. score_text c row = Inr s0 \<and> s = normalize_score s0))))
       \<and> ((\<forall>lg s. wf_search (nw lg (Search s))) \<longrightarrow>
            (\<forall>threshold lg. \<exists>v lg'.
               find_candidates_for_row nw row threshold lg = (Inr v, lg')))"
proof (intro conjI allI impI)
  fix c lg
  assume "wf_candidate c"
  then show "\<exists>s q. score_candidate nw c row lg = (Inr s, lg @ [Entity (PStr q)])
               \<and> py_getitem c ''id'' = Inr (PStr q)
               \<and> (\<not> truthy (nw lg (Entity (PStr q)))
                    \<longrightarrow> (\<exists>s0. score_text c row = Inr s0 \<and> s = normalize_score s0))"
    using row ent by (rule wf_score_candidate)
next
  fix threshold lg
  assume "\<forall>lg s. wf_search (nw lg (Search s))"
  with row ent show "\<exists>v lg'. find_candidates_for_row nw row threshold lg = (Inr v, lg')"
    by (rule wf_find_candidates)
qed

text \<open>
  Claim C2 as stated fails: a hit without \<^verbatim>\<open>id\<close> raises KeyError at line 77, and a reply
  that is a JSON list raises AttributeError at line 79 and at line 98.
\<close>

theorem malformed_hit_raises_counterexample:
  "score_candidate net_berlin cand_no_id row_berlin [] = (Inl KeyError, [])
   \<and> score_candidate net_garbled cand_berlin row_berlin [] =
       (Inl AttributeError, [Entity (PStr ''Q64'')])
   \<and> find_candidates_for_row net_garbled row_berlin (fl (8 / 10)) [] =
       (Inl AttributeError, [Search ''Berlin''])"
  by (simp add: cand_no_id_def net_garbled_def berlin_simps str_simps val_simps score_simps
      search_hits_of_def find_candidates_for_row_def)

lemma wf_row_paris: "wf_row row_paris"
  by (simp add: wf_row_def row_paris_def row_get_def row_get_default_def str_or_falsy_def
      is_str_def)

lemma wf_hits_paris: "list_all wf_candidate hits_paris"
  by (simp add: hits_paris_def wf_candidate_def member_or_def str_or_falsy_def is_str_def)

lemma wf_net_paris:
  "wf_entity (net_paris lg (Entity (PStr q))) q" "wf_search (net_paris lg (Search s))"
  by (simp_all add: wf_entity_def wf_search_def member_or_def wf_hits_paris)

theorem scoring_total_on_well_formed_witness:
  "wf_row row_paris
   \<and> (\<forall>lg q. wf_entity (net_paris lg (Entity (PStr q))) q)
   \<and> (\<forall>lg s. wf_search (net_paris lg (Search s)))
   \<and> wf_candidate (hd hits_paris)
   \<and> \<not> truthy (net_paris [] (Entity (PStr ''Q1'')))
   \<and> score_candidate net_paris (hd hits_paris) row_paris [] =
       (Inr (fl (3 / 10)), [Entity (PStr ''Q1'')])
   \<and> score_text (hd hits_paris) row_paris = Inr (fl (3 / 10))
   \<and> (\<exists>v lg'. find_candidates_for_row net_paris row_paris (fl (8 / 10)) [] = (Inr v, lg'))"
proof -
  have e: "\<forall>lg q. wf_entity (net_paris lg (Entity (PStr q))) q"
    and s: "\<forall>lg s. wf_search (net_paris lg (Search s))"
    by (intro allI wf_net_paris)+
  have c: "wf_candidate (hd hits_paris)"
    using wf_hits_paris by (simp add: hits_paris_def)
  note w = scoring_total_on_well_formed [OF wf_row_paris e]
  from w s have f:
    "\<exists>v lg'. find_candidates_for_row net_paris row_paris (fl (8 / 10)) [] = (Inr v, lg')"
    by blast
  have sc: "score_candidate net_paris (hd hits_paris) row_paris [] =
       (Inr (fl (3 / 10)), [Entity (PStr ''Q1'')])"
    and st: "score_text (hd hits_paris) row_paris = Inr (fl (3 / 10))"
    by (simp_all add: hits_paris_def row_paris_def str_simps val_simps score_simps fl_simps)
  show ?thesis
    using wf_row_paris e s c f sc st by simp
qed

section \<open>Rows without a label and searches without hits\<close>

text \<open>Without a label no request is made.\<close>

lemma no_label_no_request:
  "\<not> truthy (py_or (row_get row ''wiki_label'') (row_get row ''word'')) \<Longrightarrow>
   find_candidates_for_row nw row th lg = (Inr Ret_empty_list, lg)"
  by (simp add: find_candidates_for_row_def)

text \<open>The second disjunct of the guard: no \<^verbatim>\<open>wiki_label\<close> column and an empty \<^verbatim>\<open>word\<close>.\<close>

lemma absent_label_empty_word_skipped:
  "row_get (heap st a) ''wiki_label'' = PNone \<Longrightarrow> row_get (heap st a) ''word'' = PStr [] \<Longrightarrow>
   main_body nw dumps th a st = Inr (append_result a st)"
  by (simp add: main_body_def skip_guard_def)

text \<open>A search reply with an empty list of hits: the output row is unresolved, its list
  of fallback candidates is empty, and no entity lookup is made.\<close>

lemma empty_search_unresolved:
  assumes "\<not> skip_guard (heap st a)"
    and "py_or (row_get (heap st a) ''wiki_label'') (row_get (heap st a) ''word'') = PStr s"
    and "s \<noteq> []"
    and "nw (calls st) (Search s) = PDict res"
    and "map_of res ''search'' = Some (PList [])"
  shows "main_body nw dumps th a st =
     Inr \<lparr>heap = (heap st)(free_addr st := (heap st a)
              (''wiki_qid_candidates'' \<mapsto> PStr (dumps (PList [])),
               ''wiki_qid'' \<mapsto> PStr [], ''wiki_qid_confidence'' \<mapsto> PStr [])),
          free_addr = Suc (free_addr st), results = results st @ [free_addr st],
          calls = calls st @ [Search s]\<rparr>"
proof -
  from assms(5) have "res \<noteq> []" by auto
  then have "find_candidates_for_row nw (heap st a) th (calls st) =
      (Inr (Ret_pair [] []), calls st @ [Search s])"
    using assms(2-5)
    by (simp add: find_candidates_for_row_def search_wikidata_def request_def search_hits_of_def
        py_get_def py_iter_def bind_err_def rank_def py_sort_reverse_def)
  then show ?thesis
    using assms(1)
    by (simp add: main_body_def unpack2_def bind_err_def dict_copy_def attach_def setitem_def
        append_result_def Let_def)
qed

end
